theory Spec2Isabelle
  imports Complex_Main "HOL-Library.Sublist" "HOL-Library.Word"
begin

section \<open>Strings and the regular expressions of the rule tables\<close>

text \<open>
  Python strings are modelled as \<open>string\<close>, one \<open>char\<close> per character, and the
  model is one of ASCII strings: the case mappings (\<open>str.lower\<close>, \<open>str.upper\<close>,
  \<open>re.IGNORECASE\<close>), the class \<open>\w\<close> and the whitespace of \<open>str.strip\<close> are those of
  the ASCII range, where the rule tables and the queries of the test suite live. On other
  characters Python follows Unicode (a letter such as U+00E9 is a word character and has an
  upper case, U+00A0 is whitespace) and the model does not.
\<close>

definition lower_char :: "char \<Rightarrow> char" where
  "lower_char c =
     (let n = (of_char c :: nat) in if 65 \<le> n \<and> n \<le> 90 then char_of (n + 32) else c)"

definition upper_char :: "char \<Rightarrow> char" where
  "upper_char c =
     (let n = (of_char c :: nat) in if 97 \<le> n \<and> n \<le> 122 then char_of (n - 32) else c)"

definition lower :: "string \<Rightarrow> string" where
  "lower s = map lower_char s"

definition upper :: "string \<Rightarrow> string" where
  "upper s = map upper_char s"

definition is_word_char :: "char \<Rightarrow> bool" where
  "is_word_char c =
     (let n = (of_char c :: nat) in
        (97 \<le> n \<and> n \<le> 122) \<or> (65 \<le> n \<and> n \<le> 90) \<or> (48 \<le> n \<and> n \<le> 57) \<or> n = 95)"

text \<open>
  Every pattern of \<open>INTENT_PATTERNS\<close> and \<open>ENTITY_PATTERNS\<close> is an alternation of
  sequences of literals and word boundaries \<open>\b\<close>. A regex is the list of its
  alternatives, an alternative the list of its atoms.
\<close>

datatype atom = Lit string | WordB

type_synonym regex = "atom list list"

definition word_before :: "string \<Rightarrow> nat \<Rightarrow> bool" where
  "word_before s i = (0 < i \<and> i \<le> length s \<and> is_word_char (s ! (i - 1)))"

definition word_after :: "string \<Rightarrow> nat \<Rightarrow> bool" where
  "word_after s i = (i < length s \<and> is_word_char (s ! i))"

text \<open>\<open>match_here ic as s i\<close>: the atoms \<open>as\<close> match the subject \<open>s\<close> from position
  \<open>i\<close> on; \<open>ic\<close> is the flag \<open>re.IGNORECASE\<close>.\<close>

fun match_here :: "bool \<Rightarrow> atom list \<Rightarrow> string \<Rightarrow> nat \<Rightarrow> bool" where
  "match_here ic [] s i = True"
| "match_here ic (Lit l # as) s i =
     (let t = take (length l) (drop i s)
      in (if ic then lower t = lower l else t = l) \<and> match_here ic as s (i + length l))"
| "match_here ic (WordB # as) s i =
     (word_before s i \<noteq> word_after s i \<and> match_here ic as s i)"

text \<open>\<open>re.search(p, s)\<close> as a truth value: some alternative matches at some position.\<close>

definition re_search :: "bool \<Rightarrow> regex \<Rightarrow> string \<Rightarrow> bool" where
  "re_search ic p s =
     list_ex (\<lambda>i. list_ex (\<lambda>alt. match_here ic alt s i) p) [0..<Suc (length s)]"

section \<open>Intent and entity extraction (rag/pipeline.py)\<close>

definition lit :: "string \<Rightarrow> atom list" where
  "lit w = [Lit w]"

definition bword :: "string \<Rightarrow> atom list" where
  "bword w = [WordB, Lit w, WordB]"

definition INTENT_PATTERNS :: "(string \<times> regex list) list" where
  "INTENT_PATTERNS =
    [(''cost_analysis'',
        [[lit ''cost''], [lit ''spend''], [lit ''expensive''], [lit ''price''],
         [lit ''billing''], [lit ''billed''], [lit ''effective''], [lit ''total'']]),
     (''service_comparison'',
        [[lit ''compare''], [lit ''vs''], [lit ''versus''], [lit ''difference''],
         [lit ''equivalent''], [lit ''similar'']]),
     (''commitment_analysis'',
        [[lit ''commitment''], [lit ''reservation''], [lit ''savings plan''],
         [lit ''utilization''], [lit ''unused''], [lit ''reserved'']]),
     (''optimization'',
        [[lit ''optimiz''], [lit ''reduc''], [lit ''sav''], [lit ''rightsiz''],
         [lit ''recommend'']]),
     (''schema_query'',
        [[lit ''focus column''], [lit ''standard''], [lit ''vendor''], [lit ''x_''],
         [lit ''spec''], [lit ''definition''], [lit ''what is''], [lit ''explain'']]),
     (''tag_query'',
        [[lit ''tag''], [lit ''application''], [lit ''environment''], [lit ''production'']]),
     (''allocation_query'',
        [[lit ''alloc''], [lit ''shared cost''], [lit ''proportion''], [lit ''split'']])]"

definition ENTITY_PATTERNS :: "(string \<times> regex) list" where
  "ENTITY_PATTERNS =
    [(''aws'', [bword ''AWS'', bword ''Amazon'', bword ''EC2'', bword ''S3'',
                bword ''Lambda'', bword ''RDS'']),
     (''azure'', [bword ''Azure'', bword ''Microsoft'', bword ''Blob'',
                  bword ''Virtual Machine'']),
     (''compute'', [bword ''EC2'', bword ''Virtual Machine'', bword ''compute'',
                    bword ''instance'']),
     (''storage'', [bword ''S3'', bword ''Blob'', bword ''storage'', bword ''EBS'']),
     (''production'', [bword ''production'', bword ''prod'']),
     (''charge_purchase'', [bword ''purchase'', bword ''commitment'',
                            bword ''reservation''])]"

definition extract_intent :: "string \<Rightarrow> string list" where
  "extract_intent query =
     (let q = lower query;
          intents = map fst (filter (\<lambda>(k, patterns). list_ex (\<lambda>p. re_search False p q) patterns)
                                    INTENT_PATTERNS)
      in if intents = [] then [''general''] else intents)"

text \<open>The returned dict, in insertion order: a key is present exactly when its pattern
  matched, and then its value is \<open>True\<close>.\<close>

definition extract_entities :: "string \<Rightarrow> (string \<times> bool) list" where
  "extract_entities query =
     map (\<lambda>(k, p). (k, True)) (filter (\<lambda>(k, p). re_search True p query) ENTITY_PATTERNS)"

section \<open>Python values, exceptions and library functions\<close>

datatype exn_class =
  ValueError | JSONDecodeError | TypeError | OverflowError | AttributeError | RecursionError
  | OtherException

text \<open>An exception (an instance of a subclass of \<open>Exception\<close>): its class and message.\<close>

datatype exn = Exn (cls: exn_class) (msg: string)

text \<open>\<open>except (json.JSONDecodeError, ValueError)\<close> and \<open>except (ValueError, TypeError)\<close>:
  \<open>JSONDecodeError\<close> is a subclass of \<open>ValueError\<close>.\<close>

definition is_ValueError :: "exn \<Rightarrow> bool" where
  "is_ValueError e = (cls e = ValueError \<or> cls e = JSONDecodeError)"

definition is_TypeError :: "exn \<Rightarrow> bool" where
  "is_TypeError e = (cls e = TypeError)"

definition bnd :: "exn + 'a \<Rightarrow> ('a \<Rightarrow> exn + 'b) \<Rightarrow> exn + 'b" where
  "bnd m f = (case m of Inl e \<Rightarrow> Inl e | Inr x \<Rightarrow> f x)"

text \<open>A float: a finite value (both zeros are \<open>Fin 0\<close>), an infinity or NaN.\<close>

datatype pyfloat = Fin real | PosInf | NegInf | NaN

text \<open>The comparison \<open>x >= 0\<close> of floats; it is false of NaN.\<close>

fun ge0 :: "pyfloat \<Rightarrow> bool" where
  "ge0 (Fin r) = (0 \<le> r)"
| "ge0 PosInf = True"
| "ge0 NegInf = False"
| "ge0 NaN = False"

text \<open>A value of a row dict (\<open>row.to_dict()\<close> of a DataFrame row, or \<open>None\<close> from
  \<open>row.get\<close> of an absent column).\<close>

datatype cell = PyNone | FloatV pyfloat | IntV int | StrV string

datatype json = JNull | JBool bool | JInt int | JFloat pyfloat | JStr string
  | JArr "json list" | JObj "(string \<times> json) list"

text \<open>
  The functions of Python's library that the code calls and that are not modelled further:
  \<open>float(s)\<close> of a string (\<open>None\<close>: ValueError), \<open>float(n)\<close> of an int (\<open>None\<close>:
  OverflowError), \<open>str\<close> of a float and of a decoded JSON value, \<open>format(x, '.nf')\<close>,
  \<open>hashlib.md5(s.encode()).hexdigest()\<close> and \<open>json.loads\<close> (which raises
  \<open>JSONDecodeError\<close> on a string that is no JSON document and, in CPython,
  \<open>RecursionError\<close> on a string nested deeper than the recursion limit).
\<close>

record pylib =
  float_of_str :: "string \<Rightarrow> pyfloat option"
  float_of_int :: "int \<Rightarrow> pyfloat option"
  str_of_float :: "pyfloat \<Rightarrow> string"
  str_of_json :: "json \<Rightarrow> string"
  fmt_fixed :: "nat \<Rightarrow> pyfloat \<Rightarrow> string"
  md5_hexdigest :: "string \<Rightarrow> string"
  json_loads :: "string \<Rightarrow> exn + json"

fun truthy :: "cell \<Rightarrow> bool" where
  "truthy PyNone = False"
| "truthy (FloatV f) = (f \<noteq> Fin 0)"
| "truthy (IntV n) = (n \<noteq> 0)"
| "truthy (StrV s) = (s \<noteq> [])"

fun pd_isna :: "cell \<Rightarrow> bool" where
  "pd_isna PyNone = True"
| "pd_isna (FloatV f) = (f = NaN)"
| "pd_isna (IntV n) = False"
| "pd_isna (StrV s) = False"

fun py_float :: "pylib \<Rightarrow> cell \<Rightarrow> exn + pyfloat" where
  "py_float lib PyNone = Inl (Exn TypeError ''float() argument must be a string or a real number'')"
| "py_float lib (FloatV f) = Inr f"
| "py_float lib (IntV n) =
     (case float_of_int lib n of
        None \<Rightarrow> Inl (Exn OverflowError ''int too large to convert to float'')
      | Some f \<Rightarrow> Inr f)"
| "py_float lib (StrV s) =
     (case float_of_str lib s of
        None \<Rightarrow> Inl (Exn ValueError ''could not convert string to float'')
      | Some f \<Rightarrow> Inr f)"

definition digit :: "nat \<Rightarrow> char" where
  "digit d = char_of (48 + d)"

fun str_nat :: "nat \<Rightarrow> string" where
  "str_nat n = (if n < 10 then [digit n] else str_nat (n div 10) @ [digit (n mod 10)])"

declare str_nat.simps [simp del]

definition str_int :: "int \<Rightarrow> string" where
  "str_int i = (if i < 0 then CHR ''-'' # str_nat (nat (- i)) else str_nat (nat i))"

fun py_str :: "pylib \<Rightarrow> cell \<Rightarrow> string" where
  "py_str lib PyNone = ''None''"
| "py_str lib (FloatV f) = str_of_float lib f"
| "py_str lib (IntV n) = str_int n"
| "py_str lib (StrV s) = s"

text \<open>\<open>sep.join(xs)\<close>\<close>

fun join :: "string \<Rightarrow> string list \<Rightarrow> string" where
  "join sep [] = []"
| "join sep [x] = x"
| "join sep (x # y # ys) = x @ sep @ join sep (y # ys)"

text \<open>The whitespace of \<open>str.strip()\<close> in the ASCII range.\<close>

definition is_space :: "char \<Rightarrow> bool" where
  "is_space c = (c \<in> set [CHR '' '', CHR 0x09, CHR 0x0A, CHR 0x0B, CHR 0x0C, CHR 0x0D,
                             CHR 0x1C, CHR 0x1D, CHR 0x1E, CHR 0x1F])"

definition strip :: "string \<Rightarrow> string" where
  "strip s = rev (dropWhile is_space (rev (dropWhile is_space s)))"


section \<open>Utility helpers of the ingestion (graph/ingest.py)\<close>

definition safe_str :: "pylib \<Rightarrow> cell \<Rightarrow> string option" where
  "safe_str lib val =
     (if pd_isna val \<or> val = StrV [] \<or> val = PyNone then None
      else Some (strip (py_str lib val)))"

definition safe_float :: "pylib \<Rightarrow> cell \<Rightarrow> exn + pyfloat" where
  "safe_float lib val =
     (case (if pd_isna val then Inr (Fin 0) else py_float lib val) of
        Inr f \<Rightarrow> Inr f
      | Inl e \<Rightarrow> if is_ValueError e \<or> is_TypeError e then Inr (Fin 0) else Inl e)"

definition make_id :: "pylib \<Rightarrow> cell list \<Rightarrow> string" where
  "make_id lib parts =
     (let combined = join ''|'' (map (py_str lib) (filter truthy parts))
      in take 16 (md5_hexdigest lib combined))"


section \<open>The fact node of a row (graph/ingest.py)\<close>

text \<open>A row dict: the CSV columns, and the keys \<open>_source\<close> and \<open>_tags\<close> that the
  loaders add.\<close>

record row =
  columns :: "string \<rightharpoonup> cell"
  source_tag :: "string option"
  tags_dict :: "(string \<times> json) list option"

text \<open>\<open>row.get(name)\<close>\<close>

definition row_get :: "row \<Rightarrow> string \<Rightarrow> cell" where
  "row_get r name = (case columns r name of None \<Rightarrow> PyNone | Some v \<Rightarrow> v)"

text \<open>The attributes that \<open>SET\<close> writes on a \<open>CostRecord\<close> node.\<close>

record cost_record =
  effectiveCost :: pyfloat
  billedCost :: pyfloat
  listCost :: pyfloat
  contractedCost :: pyfloat
  currency :: string
  consumedQuantity :: pyfloat
  consumedUnit :: "string option"
  pricingQuantity :: pyfloat
  pricingUnit :: "string option"
  chargePeriodStart :: "string option"
  chargePeriodEnd :: "string option"
  source :: string
  tagApplication :: string
  tagEnvironment :: string
  tagCostCentre :: string
  description :: string

text \<open>The \<open>CostRecord\<close> nodes of the graph, by \<open>recordId\<close>.\<close>

type_synonym cost_records = "string \<rightharpoonup> cost_record"

definition or_else :: "string option \<Rightarrow> string \<Rightarrow> string" where
  "or_else v d = (case v of None \<Rightarrow> d | Some s \<Rightarrow> if s = [] then d else s)"

text \<open>An interpolated \<open>{safe_str(...)}\<close> of an f-string.\<close>

definition fmt_opt :: "string option \<Rightarrow> string" where
  "fmt_opt v = (case v of None \<Rightarrow> ''None'' | Some s \<Rightarrow> s)"

text \<open>\<open>str(tags_dict.get(k1, tags_dict.get(k2, "")))\<close>\<close>

definition tag_value :: "pylib \<Rightarrow> (string \<times> json) list \<Rightarrow> string \<Rightarrow> string \<Rightarrow> string" where
  "tag_value lib tags k1 k2 =
     (case map_of tags k1 of
        Some v \<Rightarrow> str_of_json lib v
      | None \<Rightarrow> (case map_of tags k2 of Some v \<Rightarrow> str_of_json lib v | None \<Rightarrow> []))"

text \<open>
  \<open>create_cost_record_with_relationships\<close>, up to the \<open>MERGE ... SET\<close> of the
  \<open>CostRecord\<close> node. The statements after it merge the dimension nodes and the
  relationships; they write no attribute of a \<open>CostRecord\<close> node.
\<close>

definition create_cost_record_with_relationships ::
  "pylib \<Rightarrow> cost_records \<Rightarrow> row \<Rightarrow> int \<Rightarrow> exn + (cost_records \<times> string)" where
  "create_cost_record_with_relationships lib store r idx =
     (let source = (case source_tag r of None \<Rightarrow> ''unknown'' | Some s \<Rightarrow> s);
          record_id = make_id lib [StrV source, IntV idx, row_get r ''BillingAccountId'',
                                   row_get r ''ChargePeriodStart'', row_get r ''ResourceId''];
          tags = (case tags_dict r of None \<Rightarrow> [] | Some t \<Rightarrow> t)
      in
      bnd (safe_float lib (row_get r ''EffectiveCost'')) (\<lambda>eff0.
      bnd (safe_float lib (row_get r ''EffectiveCost'')) (\<lambda>eff_cost.
      bnd (safe_float lib (row_get r ''BilledCost'')) (\<lambda>billed_cost.
      bnd (safe_float lib (row_get r ''ListCost'')) (\<lambda>list_cost.
      bnd (safe_float lib (row_get r ''ContractedCost'')) (\<lambda>contracted_cost.
      bnd (safe_float lib (row_get r ''ConsumedQuantity'')) (\<lambda>consumed_qty.
      bnd (safe_float lib (row_get r ''PricingQuantity'')) (\<lambda>pricing_qty.
        let descr = upper source @ '' '' @ fmt_opt (safe_str lib (row_get r ''ServiceName''))
                      @ '' '' @ fmt_opt (safe_str lib (row_get r ''ChargeCategory''))
                      @ '' $'' @ fmt_fixed lib 4 eff0;
            node = \<lparr> effectiveCost = eff_cost, billedCost = billed_cost,
                     listCost = list_cost, contractedCost = contracted_cost,
                     currency = or_else (safe_str lib (row_get r ''BillingCurrency'')) ''USD'',
                     consumedQuantity = consumed_qty,
                     consumedUnit = safe_str lib (row_get r ''ConsumedUnit''),
                     pricingQuantity = pricing_qty,
                     pricingUnit = safe_str lib (row_get r ''PricingUnit''),
                     chargePeriodStart = safe_str lib (row_get r ''ChargePeriodStart''),
                     chargePeriodEnd = safe_str lib (row_get r ''ChargePeriodEnd''),
                     source = source,
                     tagApplication = tag_value lib tags ''application'' ''Application'',
                     tagEnvironment = tag_value lib tags ''environment'' ''Environment'',
                     tagCostCentre = tag_value lib tags ''cost_center'' ''CostCentre'',
                     description = descr \<rparr>
        in Inr (store(record_id \<mapsto> node), record_id)))))))))"

section \<open>Retrieval results and context assembly (rag/pipeline.py)\<close>

text \<open>
  A result dict of either retriever. A field is \<open>None\<close> when the key is absent (for
  \<open>r_text\<close> also when the value is \<open>None\<close>): vector results carry \<open>label\<close>,
  \<open>text\<close>, \<open>score\<close> and \<open>source\<close>, graph results \<open>source\<close>, \<open>path\<close>, \<open>text\<close> and
  \<open>score\<close>. Scores are floats of the graph store or the constants of \<open>graph_search\<close>,
  never NaN, and are modelled as reals.
\<close>

record result =
  r_source :: "string option"
  r_label :: "string option"
  r_path :: "string option"
  r_text :: "string option"
  r_score :: "real option"

text \<open>\<open>x.get("score", 0)\<close>\<close>

definition get_score :: "result \<Rightarrow> real" where
  "get_score r = (case r_score r of None \<Rightarrow> 0 | Some s \<Rightarrow> s)"

text \<open>\<open>(r.get("text") or "")[:100]\<close>\<close>

definition text_key :: "result \<Rightarrow> string" where
  "text_key r = take 100 (case r_text r of None \<Rightarrow> [] | Some t \<Rightarrow> t)"

text \<open>the truth value of \<open>r.get("text")\<close>\<close>

definition has_text :: "result \<Rightarrow> bool" where
  "has_text r = (case r_text r of None \<Rightarrow> False | Some t \<Rightarrow> t \<noteq> [])"

text \<open>\<open>sorted(xs, key=lambda x: x.get("score", 0), reverse=True)\<close>: descending and
  stable, like \<open>sort_key\<close> on the negated score.\<close>

definition sort_by_score :: "result list \<Rightarrow> result list" where
  "sort_by_score xs = sort_key (\<lambda>r. - get_score r) xs"

text \<open>The deduplication loop of \<open>assemble_context\<close>, with its variables \<open>seen\<close> and
  \<open>unique\<close>.\<close>

fun assemble_unique :: "result list \<Rightarrow> string set \<Rightarrow> result list \<Rightarrow> result list" where
  "assemble_unique [] seen unique = unique"
| "assemble_unique (r # rs) seen unique =
     (let key = text_key r
      in if key \<notin> seen \<and> has_text r
         then assemble_unique rs (insert key seen) (unique @ [r])
         else assemble_unique rs seen unique)"

declare assemble_unique.simps(2) [simp del]

definition nl :: string where
  "nl = [CHR 0x0A]"

definition get_or :: "string option \<Rightarrow> string \<Rightarrow> string" where
  "get_or v d = (case v of None \<Rightarrow> d | Some s \<Rightarrow> s)"

text \<open>One numbered entry of the context.\<close>

definition render_item :: "pylib \<Rightarrow> nat \<times> result \<Rightarrow> string" where
  "render_item lib ir =
     (let i = fst ir; r = snd ir;
          src = get_or (r_source r) ''unknown'';
          path = get_or (r_path r) [];
          score = get_score r;
          text = get_or (r_text r) [];
          label = get_or (r_label r) [];
          prov = ''['' @ upper src @ ''/'' @ label @ '' | '' @ path @ '' | relevance:''
                   @ fmt_fixed lib 2 (Fin score) @ '']''
      in str_nat i @ ''. '' @ prov @ nl @ ''   '' @ text)"

text \<open>\<open>unique[:20]\<close>: the entries that are rendered.\<close>

definition context_items :: "result list \<Rightarrow> result list \<Rightarrow> result list" where
  "context_items vector_results graph_results =
     take 20 (assemble_unique (sort_by_score (vector_results @ graph_results)) {} [])"

definition assemble_context :: "pylib \<Rightarrow> result list \<Rightarrow> result list \<Rightarrow> string" where
  "assemble_context lib vector_results graph_results =
     (let kept = context_items vector_results graph_results;
          parts = map (render_item lib) (zip [1..<Suc (length kept)] kept)
      in join (nl @ nl) parts)"

section \<open>Vector search (rag/pipeline.py)\<close>

text \<open>A row of the similarity query: \<open>text\<close>, \<open>label\<close>, \<open>score\<close>, \<open>description\<close>.\<close>

record vector_row =
  v_text :: "string option"
  v_label :: string
  v_score :: real
  v_description :: "string option"

text \<open>
  The collaborators of the retrievers. \<open>encode\<close> is the embedding model (it may raise).
  \<open>query_nodes index text_field k embedding\<close> is one similarity lookup: the rows that
  the iteration over \<open>session.run(...)\<close> yields and, if the lookup raises, the exception
  that ends it (with no row before it when the call itself raises, as for an absent index).
\<close>

record vector_env =
  encode :: "string \<Rightarrow> exn + real list"
  query_nodes :: "string \<Rightarrow> string \<Rightarrow> nat \<Rightarrow> real list \<Rightarrow> vector_row list \<times> exn option"

definition targets :: "(string \<times> string) list" where
  "targets = [(''Service'', ''serviceName''), (''Charge'', ''chargeDescription''),
              (''FOCUSColumn'', ''description''), (''AllocationMethod'', ''description'')]"

definition index_name :: "string \<Rightarrow> string" where
  "index_name label = lower label @ ''_embedding''"

text \<open>\<open>r["text"] or r["description"]\<close>\<close>

definition text_or_description :: "vector_row \<Rightarrow> string option" where
  "text_or_description r =
     (case v_text r of
        Some t \<Rightarrow> if t \<noteq> [] then Some t else v_description r
      | None \<Rightarrow> v_description r)"

definition vector_result :: "vector_row \<Rightarrow> result" where
  "vector_result r =
     \<lparr> r_source = Some ''vector'', r_label = Some (v_label r), r_path = None,
       r_text = text_or_description r, r_score = Some (v_score r) \<rparr>"

text \<open>
  The loop over the targets: the lookups issued so far (by index name) and \<open>results\<close>.
  Each row is appended as it is yielded; an exception is swallowed (\<open>except Exception:
  pass\<close>) and the loop goes on with the next target.
\<close>

fun run_targets ::
  "vector_env \<Rightarrow> nat \<Rightarrow> real list \<Rightarrow> (string \<times> string) list \<Rightarrow> string list \<Rightarrow> result list
    \<Rightarrow> string list \<times> result list" where
  "run_targets env k emb [] issued results = (issued, results)"
| "run_targets env k emb ((label, text_field) # ts) issued results =
     (let yielded = fst (query_nodes env (index_name label) text_field k emb)
      in run_targets env k emb ts (issued @ [index_name label])
           (results @ map vector_result yielded))"

text \<open>The deduplication loop of \<open>vector_search\<close>: no test of the text here.\<close>

fun search_unique :: "result list \<Rightarrow> string set \<Rightarrow> result list \<Rightarrow> result list" where
  "search_unique [] seen unique = unique"
| "search_unique (r # rs) seen unique =
     (let key = text_key r
      in if key \<notin> seen
         then search_unique rs (insert key seen) (unique @ [r])
         else search_unique rs seen unique)"

text \<open>\<open>vector_search\<close> returns the list \<open>unique[:top_k]\<close>; the model returns with it the
  index names of the lookups it issued.\<close>

definition vector_search ::
  "vector_env \<Rightarrow> string \<Rightarrow> nat \<Rightarrow> exn + (string list \<times> result list)" where
  "vector_search env query_text top_k =
     bnd (encode env query_text) (\<lambda>query_embedding.
       let (issued, results) = run_targets env top_k query_embedding targets [] [];
           results = sort_by_score results;
           unique = search_unique results {} []
       in Inr (issued, take top_k unique))"

section \<open>Graph search (rag/pipeline.py)\<close>

text \<open>The rows of the six aggregation queries, with the columns they return. A string
  column may be null.\<close>

record service_total =
  svc_service :: "string option"
  svc_category :: "string option"
  svc_provider :: "string option"
  svc_total_cost :: real
  svc_records :: int

record production_total =
  prd_service :: "string option"
  prd_provider :: "string option"
  prd_total_cost :: real
  prd_count :: int

record storage_total =
  sto_provider :: "string option"
  sto_total_cost :: real
  sto_records :: int
  sto_services :: "string list"

record purchase_total =
  pur_provider :: "string option"
  pur_billed :: real
  pur_effective :: real
  pur_count :: int

record focus_column =
  col_name :: "string option"
  col_description :: "string option"
  col_standard :: "string option"

record category_total =
  cat_category :: "string option"
  cat_provider :: "string option"
  cat_total :: real
  cat_billed :: real

text \<open>The answers of the graph store to the six queries (\<open>top_services\<close> takes the
  provider filter spliced into the statement); a query may raise.\<close>

record graph_env =
  top_services :: "string \<Rightarrow> exn + service_total list"
  production_services :: "exn + production_total list"
  storage_totals :: "exn + storage_total list"
  purchase_totals :: "exn + purchase_total list"
  focus_columns :: "exn + focus_column list"
  category_totals :: "exn + category_total list"

text \<open>\<open>entities.get(k)\<close> as a truth value\<close>

definition entity :: "(string \<times> bool) list \<Rightarrow> string \<Rightarrow> bool" where
  "entity entities k = (map_of entities k = Some True)"

text \<open>\<open>r['provider'].upper()\<close>\<close>

definition provider_upper :: "string option \<Rightarrow> exn + string" where
  "provider_upper p =
     (case p of
        None \<Rightarrow> Inl (Exn AttributeError ''NoneType object has no attribute upper'')
      | Some s \<Rightarrow> Inr (upper s))"

fun map_exn :: "('a \<Rightarrow> exn + 'b) \<Rightarrow> 'a list \<Rightarrow> exn + 'b list" where
  "map_exn f [] = Inr []"
| "map_exn f (x # xs) = bnd (f x) (\<lambda>y. bnd (map_exn f xs) (\<lambda>ys. Inr (y # ys)))"

definition graph_result :: "string \<Rightarrow> string \<Rightarrow> real \<Rightarrow> result" where
  "graph_result path text score =
     \<lparr> r_source = Some ''graph'', r_label = None, r_path = Some path,
       r_text = Some text, r_score = Some score \<rparr>"

definition service_snippet :: "pylib \<Rightarrow> service_total \<Rightarrow> exn + result" where
  "service_snippet lib r =
     bnd (provider_upper (svc_provider r)) (\<lambda>prov.
       Inr (graph_result ''CostRecord->Resource->Service''
             (''Service '' @ [CHR 0x27] @ fmt_opt (svc_service r) @ [CHR 0x27] @ '' (''
                @ fmt_opt (svc_category r) @ '') on '' @ prov @ '': total cost $''
                @ fmt_fixed lib 4 (Fin (svc_total_cost r)) @ '' across ''
                @ str_int (svc_records r) @ '' records'')
             0.9))"

definition production_snippet :: "pylib \<Rightarrow> production_total \<Rightarrow> exn + result" where
  "production_snippet lib r =
     bnd (provider_upper (prd_provider r)) (\<lambda>prov.
       Inr (graph_result ''CostRecord[env=prod]->Resource->Service''
             (''Production tag: '' @ [CHR 0x27] @ fmt_opt (prd_service r) @ [CHR 0x27]
                @ '' on '' @ prov @ '' costs $'' @ fmt_fixed lib 4 (Fin (prd_total_cost r))
                @ '' ('' @ str_int (prd_count r) @ '' records)'')
             0.85))"

definition storage_snippet :: "pylib \<Rightarrow> storage_total \<Rightarrow> exn + result" where
  "storage_snippet lib r =
     bnd (provider_upper (sto_provider r)) (\<lambda>prov.
       Inr (graph_result ''CostRecord->Resource->Service[Storage]''
             (''Storage on '' @ prov @ '': $'' @ fmt_fixed lib 4 (Fin (sto_total_cost r))
                @ '' total, '' @ str_int (sto_records r) @ '' records. Services: ''
                @ join '', '' (sto_services r))
             0.88))"

definition double_counting_warning :: string where
  "double_counting_warning =
     ''WARNING: Including Purchase charges with Usage causes double-counting.''"

text \<open>The f-string of the purchase snippet, for the upper-cased provider \<open>prov\<close>.\<close>

definition purchase_text :: "pylib \<Rightarrow> string \<Rightarrow> purchase_total \<Rightarrow> string" where
  "purchase_text lib prov r =
     ''Commitment purchases on '' @ prov @ '': Billed=$''
       @ fmt_fixed lib 2 (Fin (pur_billed r)) @ '', Effective=$''
       @ fmt_fixed lib 2 (Fin (pur_effective r)) @ ''. ''
       @ double_counting_warning"

definition purchase_snippet :: "pylib \<Rightarrow> purchase_total \<Rightarrow> exn + result" where
  "purchase_snippet lib r =
     bnd (provider_upper (pur_provider r)) (\<lambda>prov.
       Inr (graph_result ''CostRecord[Purchase]->Charge'' (purchase_text lib prov r) 0.95))"

definition column_snippet :: "focus_column \<Rightarrow> exn + result" where
  "column_snippet r =
     Inr (graph_result ''FOCUSColumn''
           (''['' @ fmt_opt (col_standard r) @ ''] '' @ fmt_opt (col_name r) @ '': ''
              @ fmt_opt (col_description r))
           0.92)"

definition category_snippet :: "pylib \<Rightarrow> category_total \<Rightarrow> exn + result" where
  "category_snippet lib r =
     bnd (provider_upper (cat_provider r)) (\<lambda>prov.
       Inr (graph_result ''CostRecord->Charge[category]''
             (''Charge category '' @ [CHR 0x27] @ fmt_opt (cat_category r) @ [CHR 0x27]
                @ '' on '' @ prov @ '': EffectiveCost=$'' @ fmt_fixed lib 4 (Fin (cat_total r))
                @ '', BilledCost=$'' @ fmt_fixed lib 4 (Fin (cat_billed r)))
             0.87))"

text \<open>One query family: when its condition holds, run the query and format every row;
  an exception of the query or of the formatting leaves \<open>graph_search\<close>.\<close>

definition family :: "bool \<Rightarrow> exn + 'a list \<Rightarrow> ('a \<Rightarrow> exn + result) \<Rightarrow> exn + result list" where
  "family cond rows snippet = (if cond then bnd rows (map_exn snippet) else Inr [])"

definition provider_filter :: "(string \<times> bool) list \<Rightarrow> string" where
  "provider_filter entities =
     (if entity entities ''aws'' \<and> \<not> entity entities ''azure''
        then ''AND cr.source = '' @ [CHR 0x27] @ ''aws'' @ [CHR 0x27]
      else if entity entities ''azure'' \<and> \<not> entity entities ''aws''
        then ''AND cr.source = '' @ [CHR 0x27] @ ''azure'' @ [CHR 0x27]
      else [])"

definition graph_search ::
  "pylib \<Rightarrow> graph_env \<Rightarrow> string \<Rightarrow> (string \<times> bool) list \<Rightarrow> string list \<Rightarrow> exn + result list" where
  "graph_search lib db query entities intents =
     bnd (family (''cost_analysis'' \<in> set intents \<or> ''service_comparison'' \<in> set intents)
            (top_services db (provider_filter entities)) (service_snippet lib)) (\<lambda>r1.
     bnd (family (entity entities ''production'' \<or> ''tag_query'' \<in> set intents)
            (production_services db) (production_snippet lib)) (\<lambda>r2.
     bnd (family (entity entities ''storage'' \<or> ''service_comparison'' \<in> set intents)
            (storage_totals db) (storage_snippet lib)) (\<lambda>r3.
     bnd (family (''commitment_analysis'' \<in> set intents)
            (purchase_totals db) (purchase_snippet lib)) (\<lambda>r4.
     bnd (family (''schema_query'' \<in> set intents)
            (focus_columns db) column_snippet) (\<lambda>r5.
     bnd (family (''cost_analysis'' \<in> set intents \<or> ''commitment_analysis'' \<in> set intents)
            (category_totals db) (category_snippet lib)) (\<lambda>r6.
       Inr (r1 @ r2 @ r3 @ r4 @ r5 @ r6)))))))"

section \<open>Generation and the pipeline (rag/pipeline.py)\<close>

definition SYSTEM_PROMPT :: string where
  "SYSTEM_PROMPT =
     ''You are a cloud cost management expert with deep knowledge of:'' @ nl
     @ ''- FOCUS 1.0 specification (FinOps Open Cost & Usage Specification)'' @ nl
     @ ''- AWS and Azure billing data and services'' @ nl
     @ ''- FinOps best practices for cost optimization'' @ nl @ nl
     @ ''When answering:'' @ nl
     @ ''1. Ground your answer in the provided context'' @ nl
     @ ''2. Cite specific cost figures when available'' @ nl
     @ ''3. Explain FOCUS concepts clearly'' @ nl
     @ ''4. Flag double-counting risks where relevant'' @ nl"

text \<open>The configured provider and the four backends (each takes the system text and the
  user text, Ollama one prompt) and may raise.\<close>

record llm_env =
  LLM_PROVIDER :: string
  groq_chat :: "string \<Rightarrow> string \<Rightarrow> exn + string"
  ollama_generate :: "string \<Rightarrow> exn + string"
  anthropic_messages :: "string \<Rightarrow> string \<Rightarrow> exn + string"
  openai_chat :: "string \<Rightarrow> string \<Rightarrow> exn + string"

definition call_llm :: "llm_env \<Rightarrow> string \<Rightarrow> string \<Rightarrow> string" where
  "call_llm env question context =
     (let prompt = ''Based on the following cloud cost knowledge graph context:'' @ nl @ nl
                     @ context @ nl @ nl @ ''---'' @ nl @ nl @ ''Question: '' @ question
                     @ nl @ nl @ ''Provide a comprehensive, data-backed answer.''
      in
      if LLM_PROVIDER env = ''groq'' then
        (case groq_chat env SYSTEM_PROMPT prompt of
           Inr content \<Rightarrow> content
         | Inl e \<Rightarrow> ''Groq error: '' @ msg e @ nl @ nl
                     @ ''Check your GROQ_API_KEY in .env'' @ nl
                     @ ''Get a free key at: https://console.groq.com'' @ nl @ nl
                     @ ''--- Retrieved context ---'' @ nl @ context)
      else if LLM_PROVIDER env = ''ollama'' then
        (case ollama_generate env
                (SYSTEM_PROMPT @ nl @ nl @ ''User: '' @ prompt @ nl @ nl @ ''Assistant:'') of
           Inr response \<Rightarrow> response
         | Inl e \<Rightarrow> ''Ollama error: '' @ msg e @ nl @ nl
                     @ ''--- Retrieved context ---'' @ nl @ context)
      else if LLM_PROVIDER env = ''anthropic'' then
        (case anthropic_messages env SYSTEM_PROMPT prompt of
           Inr text \<Rightarrow> text
         | Inl e \<Rightarrow> ''Anthropic error: '' @ msg e @ nl @ nl @ context)
      else if LLM_PROVIDER env = ''openai'' then
        (case openai_chat env SYSTEM_PROMPT prompt of
           Inr content \<Rightarrow> content
         | Inl e \<Rightarrow> ''OpenAI error: '' @ msg e @ nl @ nl @ context)
      else ''[No LLM configured]'' @ nl @ nl @ context)"

definition NO_DATA :: string where
  "NO_DATA = ''No relevant data found in the knowledge graph for this query.''"

record rag =
  library :: pylib
  vector_store :: vector_env
  graph_store :: graph_env
  generation :: llm_env

record response =
  answer :: string
  intents :: "string list"
  entities :: "(string \<times> bool) list"
  vector_results :: "result list"
  graph_results :: "result list"
  context_text :: string
  retrieval_method :: string

text \<open>\<open>CloudCostRAG.query\<close>: the returned dict and the lines printed.\<close>

definition query :: "rag \<Rightarrow> string \<Rightarrow> nat \<Rightarrow> exn + (response \<times> string list)" where
  "query self question top_k =
     (let intents = extract_intent question;
          entities = extract_entities question;
          (vector_results, printed) =
             (case vector_search (vector_store self) question top_k of
                Inr (issued, found) \<Rightarrow> (found, [])
              | Inl e \<Rightarrow> ([], [''  Vector search warning: '' @ msg e]))
      in
      bnd (graph_search (library self) (graph_store self) question entities intents) (\<lambda>graph_results.
        let context = assemble_context (library self) vector_results graph_results;
            context = (if context = [] then NO_DATA else context);
            answer = call_llm (generation self) question context
        in Inr (\<lparr> answer = answer, intents = intents, entities = entities,
                   vector_results = vector_results, graph_results = graph_results,
                   context_text = context,
                   retrieval_method = ''hybrid (vector='' @ str_nat (length vector_results)
                      @ '', graph='' @ str_nat (length graph_results) @ '')'' \<rparr>,
                 printed)))"

section \<open>Schema setup and reset (graph/schema.py)\<close>

text \<open>The Cypher statements of the schema layer: the four kinds of \<open>CREATE ... IF NOT
  EXISTS\<close>, by the name of the constraint or index, and \<open>MATCH (n) DETACH DELETE n\<close>.\<close>

datatype statement =
  CreateConstraint string | CreateIndex string | CreateFulltextIndex string
  | CreateVectorIndex string | DetachDeleteAll

text \<open>The graph store: its nodes and relationships, the names of its constraints and
  indexes, and the statements it has received.\<close>

record graph_db =
  nodes :: "nat set"
  relationships :: "(nat \<times> string \<times> nat) set"
  schema_objects :: "string set"
  received :: "statement list"

text \<open>The server: whether it can be reached, and which statements it refuses in a given
  state (a vector index on a server without vector support, for one).\<close>

record server =
  reachable :: bool
  refuses :: "graph_db \<Rightarrow> statement \<Rightarrow> bool"

fun apply_statement :: "statement \<Rightarrow> graph_db \<Rightarrow> graph_db" where
  "apply_statement DetachDeleteAll db = db\<lparr>nodes := {}, relationships := {}\<rparr>"
| "apply_statement (CreateConstraint name) db = db\<lparr>schema_objects := insert name (schema_objects db)\<rparr>"
| "apply_statement (CreateIndex name) db = db\<lparr>schema_objects := insert name (schema_objects db)\<rparr>"
| "apply_statement (CreateFulltextIndex name) db = db\<lparr>schema_objects := insert name (schema_objects db)\<rparr>"
| "apply_statement (CreateVectorIndex name) db = db\<lparr>schema_objects := insert name (schema_objects db)\<rparr>"

text \<open>\<open>session.run(cypher)\<close>: the store afterwards, and the exception if the server
  refused the statement.\<close>

definition session_run :: "server \<Rightarrow> statement \<Rightarrow> graph_db \<Rightarrow> graph_db \<times> exn option" where
  "session_run srv st db =
     (let db' = db\<lparr>received := received db @ [st]\<rparr>
      in if refuses srv db st then (db', Some (Exn OtherException ''statement refused''))
         else (apply_statement st db', None))"

text \<open>The loop of the three setup functions: each statement is run inside
  \<open>try ... except Exception\<close>, a refusal is reported and skipped. (The progress lines
  printed are left out.)\<close>

fun run_each :: "server \<Rightarrow> statement list \<Rightarrow> graph_db \<Rightarrow> graph_db" where
  "run_each srv [] db = db"
| "run_each srv (st # sts) db = run_each srv sts (fst (session_run srv st db))"

definition constraints :: "statement list" where
  "constraints =
     [CreateConstraint ''billing_account_id'', CreateConstraint ''sub_account_id'',
      CreateConstraint ''service_name'', CreateConstraint ''region_id'',
      CreateConstraint ''resource_id'', CreateConstraint ''billing_period_start'']"

definition indexes :: "statement list" where
  "indexes =
     [CreateIndex ''service_name_idx'', CreateIndex ''charge_period_idx'',
      CreateIndex ''service_category_idx'', CreateIndex ''resource_type_idx'',
      CreateIndex ''charge_category_idx'', CreateIndex ''cost_record_source_idx'',
      CreateIndex ''tag_key_idx'']"

definition full_text_indexes :: "statement list" where
  "full_text_indexes =
     [CreateFulltextIndex ''charge_description_ft'', CreateFulltextIndex ''service_fulltext'',
      CreateFulltextIndex ''resource_fulltext'']"

definition vector_indexes :: "statement list" where
  "vector_indexes =
     [CreateVectorIndex ''cost_record_embedding'', CreateVectorIndex ''service_embedding'',
      CreateVectorIndex ''charge_embedding'', CreateVectorIndex ''location_embedding'']"

definition setup_constraints :: "server \<Rightarrow> graph_db \<Rightarrow> graph_db" where
  "setup_constraints srv db = run_each srv constraints db"

definition setup_indexes :: "server \<Rightarrow> graph_db \<Rightarrow> graph_db" where
  "setup_indexes srv db = run_each srv (indexes @ full_text_indexes) db"

definition setup_vector_indexes :: "server \<Rightarrow> graph_db \<Rightarrow> graph_db" where
  "setup_vector_indexes srv db = run_each srv vector_indexes db"

text \<open>\<open>clear_database(driver, confirm)\<close>: the store afterwards, the lines printed, and
  the exception if the deletion raised.\<close>

definition clear_database :: "server \<Rightarrow> graph_db \<Rightarrow> bool \<Rightarrow> graph_db \<times> string list \<times> exn option" where
  "clear_database srv db confirm =
     (if \<not> confirm then (db, [''Pass confirm=True to actually clear the database.''], None)
      else case session_run srv DetachDeleteAll db of
             (db', Some e) \<Rightarrow> (db', [], Some e)
           | (db', None) \<Rightarrow> (db', [''  Database cleared.''], None))"

text \<open>\<open>run_setup\<close>: nothing is run when \<open>verify_connectivity\<close> fails.\<close>

definition run_setup :: "server \<Rightarrow> graph_db \<Rightarrow> graph_db" where
  "run_setup srv db =
     (if \<not> reachable srv then db
      else setup_vector_indexes srv (setup_indexes srv (setup_constraints srv db)))"

section \<open>A sample of the library functions\<close>

text \<open>
  A concrete \<open>pylib\<close> on which the definitions can be evaluated: it knows the floats,
  digests and JSON documents of a few literals only. Like \<open>json.loads\<close> of CPython, its
  \<open>json_loads\<close> raises \<open>RecursionError\<close> on a thousand or more opening brackets.
\<close>

definition sample_lib :: pylib where
  "sample_lib =
     \<lparr> float_of_str = (\<lambda>s. if s = ''12.5'' then Some (Fin 12.5)
                             else if s = ''-3'' then Some (Fin (- 3)) else None),
       float_of_int = (\<lambda>n. Some (Fin (real_of_int n))),
       str_of_float = (\<lambda>f. if f = NaN then ''nan'' else ''0.0''),
       str_of_json = (\<lambda>j. case j of JStr s \<Rightarrow> s | _ \<Rightarrow> ''None''),
       fmt_fixed = (\<lambda>n f. if f = Fin 0.95 then ''0.95'' else ''0.00''),
       md5_hexdigest = (\<lambda>s. take 32 (s @ replicate 32 (CHR ''0''))),
       json_loads = (\<lambda>s. if 1000 \<le> length s \<and> list_all (\<lambda>c. c = CHR ''['') s
                            then Inl (Exn RecursionError ''maximum recursion depth exceeded'')
                          else if s = ''{\"env\": \"prod\"}''
                            then Inr (JObj [(''env'', JStr ''prod'')])
                          else if s = ''[1]'' then Inr (JArr [JInt 1])
                          else Inl (Exn JSONDecodeError ''Expecting value'')) \<rparr>"

text \<open>
  A concrete deployment for evaluation. The embedding model fails on the query
  \<open>unused\<close>; the \<open>service\<close> index is absent, the \<open>charge\<close> index answers the embedding
  \<open>[1]\<close> with one row, the \<open>focuscolumn\<close> index yields one row for the embedding \<open>[2]\<close>
  (of the query \<open>spec\<close>) and then fails, and every other lookup has no row. The graph
  holds purchase charges of one provider. No generation backend is configured.
\<close>

definition sample_vector_env :: vector_env where
  "sample_vector_env =
     \<lparr> encode = (\<lambda>q. if q = ''unused'' then Inl (Exn OtherException ''model not loaded'')
                       else if q = ''hello'' then Inr [0]
                       else if q = ''spec'' then Inr [2] else Inr [1]),
       query_nodes = (\<lambda>index text_field k emb.
          if index = ''service_embedding''
            then ([], Some (Exn OtherException ''no such vector index''))
          else if index = ''charge_embedding'' \<and> emb = [1]
            then ([\<lparr> v_text = Some ''Reserved instance fee'', v_label = ''Charge'',
                      v_score = 0.5, v_description = None \<rparr>], None)
          else if index = ''focuscolumn_embedding'' \<and> emb = [2]
            then ([\<lparr> v_text = Some ''The cost that is billed'', v_label = ''FOCUSColumn'',
                      v_score = 0.8, v_description = None \<rparr>],
                  Some (Exn OtherException ''connection lost''))
          else ([], None)) \<rparr>"

definition sample_graph_env :: graph_env where
  "sample_graph_env =
     \<lparr> top_services = (\<lambda>flt. Inr [\<lparr> svc_service = Some ''Amazon EC2'',
                                       svc_category = Some ''Compute'',
                                       svc_provider = Some ''aws'',
                                       svc_total_cost = 0, svc_records = 3 \<rparr>]),
       production_services = Inr [],
       storage_totals = Inr [],
       purchase_totals = Inr [\<lparr> pur_provider = Some ''aws'', pur_billed = 0,
                                 pur_effective = 0, pur_count = 2 \<rparr>],
       focus_columns = Inr [],
       category_totals = Inr [\<lparr> cat_category = Some ''Purchase'', cat_provider = Some ''aws'',
                                 cat_total = 0, cat_billed = 0 \<rparr>] \<rparr>"

definition sample_llm_env :: llm_env where
  "sample_llm_env =
     \<lparr> LLM_PROVIDER = ''none'',
       groq_chat = (\<lambda>system_text prompt. Inl (Exn OtherException ''no key'')),
       ollama_generate = (\<lambda>prompt. Inl (Exn OtherException ''no server'')),
       anthropic_messages = (\<lambda>system_text prompt. Inl (Exn OtherException ''no key'')),
       openai_chat = (\<lambda>system_text prompt. Inl (Exn OtherException ''no key'')) \<rparr>"

definition sample_rag :: rag where
  "sample_rag =
     \<lparr> library = sample_lib, vector_store = sample_vector_env,
       graph_store = sample_graph_env, generation = sample_llm_env \<rparr>"

section \<open>Properties of the extractor\<close>

lemma tagged_keys_subset:
  "fst ` set (map (\<lambda>(k, p). (k, True)) (filter P xs)) \<subseteq> fst ` set xs"
  by (induction xs) auto

lemma tagged_values_True:
  "snd ` set (map (\<lambda>(k, p). (k, True)) (filter P xs)) \<subseteq> {True}"
  by (induction xs) auto

lemma tagged_lookup:
  "distinct (map fst xs) \<Longrightarrow>
   map_of (map (\<lambda>(k, p). (k, True)) (filter (\<lambda>(k, p). R p) xs)) k =
     (case map_of xs k of None \<Rightarrow> None | Some p \<Rightarrow> if R p then Some True else None)"
proof (induction xs)
  case Nil
  then show ?case by simp
next
  case (Cons x xs)
  obtain k' p' where x: "x = (k', p')" by (cases x)
  from Cons.prems x have notin: "k' \<notin> fst ` set xs" by simp
  then have none: "map_of xs k' = None" by (simp add: map_of_eq_None_iff)
  from Cons have IH: "map_of (map (\<lambda>(k, p). (k, True)) (filter (\<lambda>(k, p). R p) xs)) k =
     (case map_of xs k of None \<Rightarrow> None | Some p \<Rightarrow> if R p then Some True else None)"
    by simp
  show ?case
  proof (cases "k = k'")
    case True
    with none IH x show ?thesis by simp
  next
    case False
    with IH x show ?thesis by simp
  qed
qed

lemma entity_keys: "fst ` set ENTITY_PATTERNS =
  {''aws'', ''azure'', ''compute'', ''storage'', ''production'', ''charge_purchase''}"
  by (simp add: ENTITY_PATTERNS_def insert_commute)

lemma entity_keys_distinct: "distinct (map fst ENTITY_PATTERNS)"
  by (simp add: ENTITY_PATTERNS_def)

lemma compare_query_intents:
  "extract_intent ''Compare storage costs between AWS and Azure'' =
     [''cost_analysis'', ''service_comparison'']"
  by code_simp

lemma compare_query_entities:
  "extract_entities ''Compare storage costs between AWS and Azure'' =
     [(''aws'', True), (''azure'', True), (''storage'', True)]"
  by code_simp

text \<open>
  C2. The extractor is a function of the query string alone: the rule tables are constants
  and nothing else is read or written, so equal queries give equal intent lists and equal
  entity maps. For the query "Compare storage costs between AWS and Azure" the intent list
  contains \<open>service_comparison\<close> and the entity map has the keys \<open>aws\<close>, \<open>azure\<close> and
  \<open>storage\<close>.
\<close>

theorem extractor_deterministic:
  "(q = q' \<longrightarrow> extract_intent q = extract_intent q' \<and> extract_entities q = extract_entities q')
   \<and> ''service_comparison'' \<in> set (extract_intent ''Compare storage costs between AWS and Azure'')
   \<and> {''aws'', ''azure'', ''storage''}
        \<subseteq> fst ` set (extract_entities ''Compare storage costs between AWS and Azure'')"
  by (simp add: compare_query_intents compare_query_entities)

theorem extractor_deterministic_witness:
  "''Compare '' @ ''storage'' = ''Compare storage''
   \<and> extract_intent (''Compare '' @ ''storage'') = extract_intent ''Compare storage''
   \<and> extract_entities (''Compare '' @ ''storage'') = extract_entities ''Compare storage''
   \<and> ''service_comparison'' \<in> set (extract_intent ''Compare storage costs between AWS and Azure'')"
  using extractor_deterministic [of "''Compare '' @ ''storage''" "''Compare storage''"]
  by simp

text \<open>
  C10. For every query the keys of the entity map are among \<open>aws\<close>, \<open>azure\<close>,
  \<open>compute\<close>, \<open>storage\<close>, \<open>production\<close> and \<open>charge_purchase\<close>, every value is
  \<open>True\<close>, and a key is bound (to \<open>True\<close>) exactly when its pattern matches the query:
  an entity that is not detected is absent, never bound to \<open>False\<close>.
\<close>

theorem extract_entities_keys_values:
  "fst ` set (extract_entities q)
     \<subseteq> {''aws'', ''azure'', ''compute'', ''storage'', ''production'', ''charge_purchase''}
   \<and> snd ` set (extract_entities q) \<subseteq> {True}
   \<and> map_of (extract_entities q) k =
       (case map_of ENTITY_PATTERNS k of
          None \<Rightarrow> None
        | Some p \<Rightarrow> if re_search True p q then Some True else None)
   \<and> map_of (extract_entities q) k \<noteq> Some False"
proof -
  have keys: "fst ` set (extract_entities q) \<subseteq> fst ` set ENTITY_PATTERNS"
    unfolding extract_entities_def by (rule tagged_keys_subset)
  have vals: "snd ` set (extract_entities q) \<subseteq> {True}"
    unfolding extract_entities_def by (rule tagged_values_True)
  have look: "map_of (extract_entities q) k =
       (case map_of ENTITY_PATTERNS k of
          None \<Rightarrow> None
        | Some p \<Rightarrow> if re_search True p q then Some True else None)"
    unfolding extract_entities_def
    by (rule tagged_lookup [OF entity_keys_distinct, of "\<lambda>p. re_search True p q" k])
  have "map_of (extract_entities q) k \<noteq> Some False"
    by (simp add: look split: option.split)
  with keys vals look show ?thesis
    by (simp only: entity_keys simp_thms)
qed

theorem extract_entities_keys_values_witness:
  "map_of (extract_entities ''AWS compute'') ''aws'' = Some True
   \<and> map_of (extract_entities ''AWS compute'') ''azure'' = None
   \<and> fst ` set (extract_entities ''AWS compute'')
       \<subseteq> {''aws'', ''azure'', ''compute'', ''storage'', ''production'', ''charge_purchase''}"
proof -
  have e: "extract_entities ''AWS compute'' = [(''aws'', True), (''compute'', True)]"
    by code_simp
  from extract_entities_keys_values [of "''AWS compute''" "''aws''"] e
  show ?thesis by simp
qed

section \<open>Properties of the ingestion helpers\<close>

lemma safe_float_default:
  "pd_isna val \<or> (\<exists>s. val = StrV s \<and> float_of_str lib s = None) \<Longrightarrow> safe_float lib val = Inr (Fin 0)"
  by (auto simp: safe_float_def is_ValueError_def)

lemma safe_float_number:
  "f \<noteq> NaN \<Longrightarrow> safe_float lib (FloatV f) = Inr f"
  by (simp add: safe_float_def)

text \<open>
  C1. The claim is that every cost attribute of a written \<open>CostRecord\<close> node is \<open>\<ge> 0\<close>,
  also for rows with negative cost fields. \<open>safe_float\<close> replaces a missing, NaN or
  non-numeric field by \<open>0.0\<close> but returns a negative number as it is, and nothing between
  it and the \<open>SET\<close> checks the sign: for a row whose \<open>EffectiveCost\<close> is \<open>-5.0\<close> (a
  credit line, say) the node is written with \<open>effectiveCost = -5.0\<close>.
\<close>

theorem negative_cost_written:
  "\<exists>store' rid node.
     create_cost_record_with_relationships lib store
       \<lparr> columns = [''EffectiveCost'' \<mapsto> FloatV (Fin (- 5)), ''BilledCost'' \<mapsto> StrV ''n/a''],
         source_tag = Some ''aws'', tags_dict = Some [] \<rparr> 0 = Inr (store', rid)
     \<and> store' rid = Some node
     \<and> effectiveCost node = Fin (- 5) \<and> \<not> ge0 (effectiveCost node)
     \<and> listCost node = Fin 0"
  by (simp add: create_cost_record_with_relationships_def safe_float_def row_get_def bnd_def
        Let_def is_ValueError_def is_TypeError_def split: option.split)

text \<open>
  C9. \<open>make_id\<close> joins the \<open>str\<close> of the truthy parts with \<open>|\<close> and returns the
  first 16 characters of the MD5 hex digest of the joined string; two argument tuples with
  the same truthy parts in the same order therefore get the same identifier, whatever falsy
  parts (\<open>None\<close>, the empty string, a zero) they hold and wherever these occur.
\<close>

theorem make_id_truthy_parts:
  "make_id lib ps = take 16 (md5_hexdigest lib (join ''|'' (map (py_str lib) (filter truthy ps))))
   \<and> (filter truthy ps = filter truthy qs \<longrightarrow> make_id lib ps = make_id lib qs)"
  by (simp add: make_id_def)

theorem make_id_truthy_parts_witness:
  "make_id sample_lib [StrV ''aws'', IntV 7, PyNone, StrV ''2024-01-01'', StrV ''i-1'']
     = make_id sample_lib [StrV ''aws'', IntV 7, StrV [], StrV ''2024-01-01'', StrV ''i-1'']
   \<and> make_id sample_lib [StrV ''aws'', IntV 7, PyNone, StrV ''2024-01-01'', StrV ''i-1'']
     = make_id sample_lib [StrV ''aws'', IntV 7, StrV ''2024-01-01'', PyNone, StrV ''i-1'']
   \<and> make_id sample_lib [StrV ''aws'', IntV 7, PyNone, StrV ''2024-01-01'', StrV ''i-1'']
     = ''aws|7|2024-01-01''"
proof -
  have v: "make_id sample_lib [StrV ''aws'', IntV 7, PyNone, StrV ''2024-01-01'', StrV ''i-1'']
     = ''aws|7|2024-01-01''"
    by code_simp
  have a: "make_id sample_lib [StrV ''aws'', IntV 7, PyNone, StrV ''2024-01-01'', StrV ''i-1'']
     = make_id sample_lib [StrV ''aws'', IntV 7, StrV [], StrV ''2024-01-01'', StrV ''i-1'']"
    using make_id_truthy_parts
         [of sample_lib "[StrV ''aws'', IntV 7, PyNone, StrV ''2024-01-01'', StrV ''i-1'']"
             "[StrV ''aws'', IntV 7, StrV [], StrV ''2024-01-01'', StrV ''i-1'']",
          THEN conjunct2]
    by simp
  have b: "make_id sample_lib [StrV ''aws'', IntV 7, PyNone, StrV ''2024-01-01'', StrV ''i-1'']
     = make_id sample_lib [StrV ''aws'', IntV 7, StrV ''2024-01-01'', PyNone, StrV ''i-1'']"
    using make_id_truthy_parts
         [of sample_lib "[StrV ''aws'', IntV 7, PyNone, StrV ''2024-01-01'', StrV ''i-1'']"
             "[StrV ''aws'', IntV 7, StrV ''2024-01-01'', PyNone, StrV ''i-1'']",
          THEN conjunct2]
    by simp
  from a b v show ?thesis by (simp only: simp_thms)
qed





section \<open>The reset is gated\<close>

lemma session_run_create:
  "st \<noteq> DetachDeleteAll \<Longrightarrow>
     nodes (fst (session_run srv st db)) = nodes db
   \<and> relationships (fst (session_run srv st db)) = relationships db
   \<and> received (fst (session_run srv st db)) = received db @ [st]"
  by (cases st) (simp_all add: session_run_def Let_def)

lemma run_each_frame:
  "DetachDeleteAll \<notin> set sts \<Longrightarrow>
     nodes (run_each srv sts db) = nodes db
   \<and> relationships (run_each srv sts db) = relationships db
   \<and> received (run_each srv sts db) = received db @ sts"
proof (induction sts arbitrary: db)
  case Nil
  then show ?case by simp
next
  case (Cons st sts)
  then have st: "st \<noteq> DetachDeleteAll" and sts: "DetachDeleteAll \<notin> set sts" by auto
  from Cons.IH [OF sts, of "fst (session_run srv st db)"] session_run_create [OF st, of srv db]
  show ?case by simp
qed

lemma no_delete_constraints: "DetachDeleteAll \<notin> set constraints"
  by (simp add: constraints_def)

lemma no_delete_indexes: "DetachDeleteAll \<notin> set (indexes @ full_text_indexes)"
  by (simp add: indexes_def full_text_indexes_def)

lemma no_delete_vector_indexes: "DetachDeleteAll \<notin> set vector_indexes"
  by (simp add: vector_indexes_def)

lemma clear_database_confirmed:
  "\<not> refuses srv db DetachDeleteAll \<Longrightarrow>
     nodes (fst (clear_database srv db True)) = {} \<and> relationships (fst (clear_database srv db True)) = {}"
  by (simp add: clear_database_def session_run_def Let_def)

text \<open>
  C8. \<open>clear_database\<close> without confirmation (\<open>confirm = False\<close>, the default) leaves
  the store exactly as it was: no statement is sent, one line is printed. The other
  operations of the schema layer (\<open>setup_constraints\<close>, \<open>setup_indexes\<close>,
  \<open>setup_vector_indexes\<close>, \<open>run_setup\<close>) send only their \<open>CREATE\<close> statements,
  never the deletion, and leave nodes and relationships as they were, whatever the server
  refuses.
\<close>

theorem clear_database_gated:
  "clear_database srv db False = (db, [''Pass confirm=True to actually clear the database.''], None)
   \<and> nodes (setup_constraints srv db) = nodes db
   \<and> relationships (setup_constraints srv db) = relationships db
   \<and> received (setup_constraints srv db) = received db @ constraints
   \<and> nodes (setup_indexes srv db) = nodes db
   \<and> relationships (setup_indexes srv db) = relationships db
   \<and> received (setup_indexes srv db) = received db @ indexes @ full_text_indexes
   \<and> nodes (setup_vector_indexes srv db) = nodes db
   \<and> relationships (setup_vector_indexes srv db) = relationships db
   \<and> received (setup_vector_indexes srv db) = received db @ vector_indexes
   \<and> nodes (run_setup srv db) = nodes db
   \<and> relationships (run_setup srv db) = relationships db
   \<and> (\<exists>issued. received (run_setup srv db) = received db @ issued
         \<and> DetachDeleteAll \<notin> set issued)
   \<and> DetachDeleteAll \<notin> set (constraints @ indexes @ full_text_indexes @ vector_indexes)"
proof -
  have c: "nodes (setup_constraints srv d) = nodes d
     \<and> relationships (setup_constraints srv d) = relationships d
     \<and> received (setup_constraints srv d) = received d @ constraints" for d
    unfolding setup_constraints_def by (rule run_each_frame [OF no_delete_constraints])
  have i: "nodes (setup_indexes srv d) = nodes d
     \<and> relationships (setup_indexes srv d) = relationships d
     \<and> received (setup_indexes srv d) = received d @ indexes @ full_text_indexes" for d
    unfolding setup_indexes_def by (rule run_each_frame [OF no_delete_indexes])
  have v: "nodes (setup_vector_indexes srv d) = nodes d
     \<and> relationships (setup_vector_indexes srv d) = relationships d
     \<and> received (setup_vector_indexes srv d) = received d @ vector_indexes" for d
    unfolding setup_vector_indexes_def by (rule run_each_frame [OF no_delete_vector_indexes])
  have nd: "DetachDeleteAll \<notin> set (constraints @ indexes @ full_text_indexes @ vector_indexes)"
    using no_delete_constraints no_delete_indexes no_delete_vector_indexes by simp
  have r1: "nodes (run_setup srv db) = nodes db \<and> relationships (run_setup srv db) = relationships db"
    by (simp add: run_setup_def c i v)
  have r2: "\<exists>issued. received (run_setup srv db) = received db @ issued
         \<and> DetachDeleteAll \<notin> set issued"
  proof (cases "reachable srv")
    case True
    then have "received (run_setup srv db)
        = received db @ (constraints @ indexes @ full_text_indexes @ vector_indexes)"
      by (simp add: run_setup_def c i v)
    with nd show ?thesis by blast
  next
    case False
    then have "received (run_setup srv db) = received db @ []" by (simp add: run_setup_def)
    then show ?thesis by (intro exI [of _ "[]"]) simp
  qed
  have cd: "clear_database srv db False
     = (db, [''Pass confirm=True to actually clear the database.''], None)"
    by (simp add: clear_database_def)
  from cd c [of db] i [of db] v [of db] r1 r2 nd show ?thesis by (simp only: simp_thms)
qed


section \<open>The empty context\<close>

lemma assemble_context_empty: "assemble_context lib [] [] = []"
  by (simp add: assemble_context_def context_items_def sort_by_score_def)

lemma sample_vector_hello:
  "vector_search sample_vector_env ''hello'' 10 =
     Inr ([''service_embedding'', ''charge_embedding'', ''focuscolumn_embedding'',
           ''allocationmethod_embedding''], [])"
  by code_simp

lemma sample_graph_hello:
  "graph_search sample_lib sample_graph_env ''hello''
     (extract_entities ''hello'') (extract_intent ''hello'') = Inr []"
  by code_simp

text \<open>
  C4, as claimed: with both result lists empty the context assembler itself would produce
  the placeholder. It does not: \<open>assemble_context\<close> returns the empty string.
\<close>

theorem assemble_empty_counterexample:
  "assemble_context sample_lib [] [] = [] \<and> assemble_context sample_lib [] [] \<noteq> NO_DATA"
  by (simp add: assemble_context_def context_items_def sort_by_score_def NO_DATA_def)

text \<open>
  C4, amended. With both result lists empty \<open>assemble_context\<close> returns the empty string;
  \<open>CloudCostRAG.query\<close> then replaces the empty context by the placeholder
  \<open>NO_DATA\<close>, calls \<open>call_llm\<close> with the placeholder as context (generation is not
  skipped) and returns the placeholder as the context of the response.
\<close>

theorem query_no_data_placeholder:
  assumes vs: "vector_search (vector_store self) question top_k = Inr (issued, [])"
    and gs: "graph_search (library self) (graph_store self) question
               (extract_entities question) (extract_intent question) = Inr []"
  shows "assemble_context (library self) [] [] = []
   \<and> (\<exists>resp printed. query self question top_k = Inr (resp, printed)
         \<and> vector_results resp = [] \<and> graph_results resp = []
         \<and> context_text resp = NO_DATA
         \<and> answer resp = call_llm (generation self) question NO_DATA)"
  using vs gs by (simp add: query_def bnd_def assemble_context_empty Let_def)

theorem query_no_data_placeholder_witness:
  "\<exists>resp printed. query sample_rag ''hello'' 10 = Inr (resp, printed)
      \<and> context_text resp = NO_DATA
      \<and> answer resp = ''[No LLM configured]'' @ nl @ nl @ NO_DATA"
proof -
  have vs: "vector_search (vector_store sample_rag) ''hello'' 10 =
     Inr ([''service_embedding'', ''charge_embedding'', ''focuscolumn_embedding'',
           ''allocationmethod_embedding''], [])"
    by (simp add: sample_rag_def sample_vector_hello)
  have gs: "graph_search (library sample_rag) (graph_store sample_rag) ''hello''
     (extract_entities ''hello'') (extract_intent ''hello'') = Inr []"
    by (simp add: sample_rag_def sample_graph_hello)
  have llm: "call_llm (generation sample_rag) ''hello'' NO_DATA
     = ''[No LLM configured]'' @ nl @ nl @ NO_DATA"
    by (simp add: call_llm_def sample_rag_def sample_llm_env_def)
  from query_no_data_placeholder [OF vs gs] llm show ?thesis by auto
qed

section \<open>Deduplication and ranking of the context\<close>

lemma sort_by_score_desc:
  "sorted_wrt (\<lambda>a b. get_score b \<le> get_score a) (sort_by_score xs)"
proof -
  have "sorted (map (\<lambda>r. - get_score r) (sort_key (\<lambda>r. - get_score r) xs))"
    by (rule sorted_sort_key)
  then show ?thesis by (simp add: sort_by_score_def sorted_map)
qed

lemma set_sort_by_score: "set (sort_by_score xs) = set xs"
  by (simp add: sort_by_score_def)

lemma has_text_key: "has_text r \<Longrightarrow> text_key r \<noteq> []"
  by (auto simp: has_text_def text_key_def split: option.splits)

lemma no_text_key: "\<not> has_text r \<Longrightarrow> text_key r = []"
  by (auto simp: has_text_def text_key_def split: option.splits)

lemma assemble_unique_acc:
  "assemble_unique rs seen unique = unique @ assemble_unique rs seen []"
proof (induction rs arbitrary: seen unique)
  case Nil
  show ?case by simp
next
  case (Cons r rs)
  show ?case
  proof (cases "text_key r \<notin> seen \<and> has_text r")
    case True
    have "assemble_unique (r # rs) seen unique
          = assemble_unique rs (insert (text_key r) seen) (unique @ [r])"
      using True by (simp add: Let_def assemble_unique.simps(2))
    also have "\<dots> = (unique @ [r]) @ assemble_unique rs (insert (text_key r) seen) []"
      by (rule Cons.IH)
    also have "\<dots> = unique @ assemble_unique rs (insert (text_key r) seen) ([] @ [r])"
      using Cons.IH [of "insert (text_key r) seen" "[] @ [r]"] by simp
    also have "\<dots> = unique @ assemble_unique (r # rs) seen []"
      using True by (simp add: Let_def assemble_unique.simps(2))
    finally show ?thesis .
  next
    case False
    then have "assemble_unique (r # rs) seen unique = assemble_unique rs seen unique"
      and "assemble_unique (r # rs) seen [] = assemble_unique rs seen []"
      by (auto simp: Let_def assemble_unique.simps(2))
    with Cons.IH [of seen unique] show ?thesis by simp
  qed
qed

lemma assemble_unique_Cons:
  "assemble_unique (r # rs) seen [] =
     (if text_key r \<notin> seen \<and> has_text r
      then r # assemble_unique rs (insert (text_key r) seen) []
      else assemble_unique rs seen [])"
  using assemble_unique_acc [of rs "insert (text_key r) seen" "[r]"]
  by (simp add: Let_def assemble_unique.simps(2))

lemma assemble_unique_subset: "set (assemble_unique rs seen []) \<subseteq> set rs"
  by (induction rs arbitrary: seen) (auto simp: assemble_unique_Cons)

lemma assemble_unique_has_text: "r \<in> set (assemble_unique rs seen []) \<Longrightarrow> has_text r"
  by (induction rs arbitrary: seen)
     (auto simp: assemble_unique_Cons split: if_splits)

lemma assemble_unique_unseen:
  "r \<in> set (assemble_unique rs seen []) \<Longrightarrow> text_key r \<notin> seen"
  by (induction rs arbitrary: seen)
     (auto simp: assemble_unique_Cons split: if_splits)

lemma assemble_unique_distinct: "distinct (map text_key (assemble_unique rs seen []))"
proof (induction rs arbitrary: seen)
  case Nil
  show ?case by simp
next
  case (Cons r rs)
  show ?case
  proof (cases "text_key r \<notin> seen \<and> has_text r")
    case True
    have "text_key r \<notin> text_key ` set (assemble_unique rs (insert (text_key r) seen) [])"
    proof
      assume "text_key r \<in> text_key ` set (assemble_unique rs (insert (text_key r) seen) [])"
      then obtain y where y: "y \<in> set (assemble_unique rs (insert (text_key r) seen) [])"
        and k: "text_key y = text_key r" by auto
      from assemble_unique_unseen [OF y] k show False by simp
    qed
    with True Cons.IH [of "insert (text_key r) seen"] show ?thesis
      by (auto simp: assemble_unique_Cons)
  next
    case False
    with Cons.IH [of seen] show ?thesis
      by (auto simp: assemble_unique_Cons)
  qed
qed

lemma assemble_unique_sorted:
  "sorted_wrt P rs \<Longrightarrow> sorted_wrt P (assemble_unique rs seen [])"
proof (induction rs arbitrary: seen)
  case Nil
  show ?case by simp
next
  case (Cons r rs)
  from Cons.prems have all: "\<forall>x \<in> set rs. P r x" and tl: "sorted_wrt P rs" by simp_all
  from all assemble_unique_subset [of rs "insert (text_key r) seen"]
  have "\<forall>x \<in> set (assemble_unique rs (insert (text_key r) seen) []). P r x" by blast
  with Cons.IH [OF tl] show ?case
    by (simp add: assemble_unique_Cons)
qed

lemma assemble_unique_first:
  "sorted_wrt (\<lambda>a b. get_score b \<le> get_score a) rs \<Longrightarrow>
   r \<in> set (assemble_unique rs seen []) \<Longrightarrow> r' \<in> set rs \<Longrightarrow> text_key r' = text_key r \<Longrightarrow>
   get_score r' \<le> get_score r"
proof (induction rs arbitrary: seen)
  case Nil
  then show ?case by simp
next
  case (Cons x xs)
  from Cons.prems(1) have below: "\<forall>y \<in> set xs. get_score y \<le> get_score x"
    and tl: "sorted_wrt (\<lambda>a b. get_score b \<le> get_score a) xs" by simp_all
  show ?case
  proof (cases "text_key x \<notin> seen \<and> has_text x")
    case True
    with Cons.prems(2)
    consider (head) "r = x" | (tail) "r \<in> set (assemble_unique xs (insert (text_key x) seen) [])"
      by (auto simp: assemble_unique_Cons)
    then show ?thesis
    proof cases
      case head
      with Cons.prems(3) below show ?thesis by auto
    next
      case tail
      from assemble_unique_unseen [OF tail] have "text_key r \<noteq> text_key x" by simp
      with Cons.prems(3,4) have "r' \<in> set xs" by auto
      from Cons.IH [OF tl tail this Cons.prems(4)] show ?thesis .
    qed
  next
    case False
    with Cons.prems(2) have tail: "r \<in> set (assemble_unique xs seen [])"
      by (auto simp: assemble_unique_Cons)
    have "r' \<noteq> x"
    proof
      assume "r' = x"
      with Cons.prems(4) have kx: "text_key x = text_key r" by simp
      from assemble_unique_unseen [OF tail] kx have "text_key x \<notin> seen" by simp
      with False have "\<not> has_text x" by simp
      then have "text_key x = []" by (rule no_text_key)
      moreover from assemble_unique_has_text [OF tail] have "text_key r \<noteq> []"
        by (rule has_text_key)
      ultimately show False using kx by simp
    qed
    with Cons.prems(3) have "r' \<in> set xs" by simp
    from Cons.IH [OF tl tail this Cons.prems(4)] show ?thesis .
  qed
qed



text \<open>
  C3. For every pair of result lists, the entries that \<open>assemble_context\<close> renders
  (\<open>context_items\<close>) have pairwise different text prefixes (the first 100 characters),
  stand in non-increasing order of score, and are at most 20. Each of them is an entry of
  the input with a non-empty text, and no entry of the input with the same prefix has a
  higher score: of several entries with one prefix the first in score order survives. The
  context is the rendering of exactly these entries, numbered from 1.
\<close>

theorem context_items_dedup_sorted_bounded:
  "distinct (map text_key (context_items v g))
   \<and> sorted_wrt (\<lambda>a b. get_score b \<le> get_score a) (context_items v g)
   \<and> length (context_items v g) \<le> 20
   \<and> set (context_items v g) \<subseteq> set (v @ g)
   \<and> (\<forall>r \<in> set (context_items v g).
         has_text r
         \<and> (\<forall>r' \<in> set (v @ g). text_key r' = text_key r \<longrightarrow> get_score r' \<le> get_score r))
   \<and> assemble_context lib v g =
       join (nl @ nl) (map (render_item lib)
          (zip [1..<Suc (length (context_items v g))] (context_items v g)))"
proof -
  let ?S = "sort_by_score (v @ g)"
  let ?U = "assemble_unique ?S {} []"
  have items: "context_items v g = take 20 ?U" by (simp add: context_items_def)
  have sub: "set (take 20 ?U) \<subseteq> set ?U" by (rule set_take_subset)
  have d: "distinct (map text_key (take 20 ?U))"
    using assemble_unique_distinct [of ?S "{}"] by (simp add: take_map [symmetric])
  have s: "sorted_wrt (\<lambda>a b. get_score b \<le> get_score a) (take 20 ?U)"
    using assemble_unique_sorted [OF sort_by_score_desc, of "v @ g" "{}"]
    by (rule sorted_wrt_take)
  have l: "length (take 20 ?U) \<le> 20" by simp
  have m: "set (take 20 ?U) \<subseteq> set (v @ g)"
    using sub assemble_unique_subset [of ?S "{}"] set_sort_by_score [of "v @ g"] by blast
  have f: "\<forall>r \<in> set (take 20 ?U).
         has_text r
         \<and> (\<forall>r' \<in> set (v @ g). text_key r' = text_key r \<longrightarrow> get_score r' \<le> get_score r)"
  proof (intro ballI conjI impI)
    fix r assume "r \<in> set (take 20 ?U)"
    with sub have r: "r \<in> set ?U" by blast
    then show "has_text r" by (rule assemble_unique_has_text)
    fix r' assume "r' \<in> set (v @ g)" and k: "text_key r' = text_key r"
    then have "r' \<in> set ?S" by (simp only: set_sort_by_score)
    from assemble_unique_first [OF sort_by_score_desc r this k]
    show "get_score r' \<le> get_score r" .
  qed
  have a: "assemble_context lib v g =
       join (nl @ nl) (map (render_item lib)
          (zip [1..<Suc (length (context_items v g))] (context_items v g)))"
    by (simp add: assemble_context_def Let_def)
  from d s l m f a show ?thesis by (simp only: items simp_thms)
qed

theorem context_items_dedup_sorted_bounded_witness:
  "context_items
     [\<lparr> r_source = Some ''vector'', r_label = Some ''Charge'', r_path = None,
        r_text = Some ''Reserved instance fee'', r_score = Some 0.5 \<rparr>,
      \<lparr> r_source = Some ''vector'', r_label = Some ''Service'', r_path = None,
        r_text = Some ''Reserved instance fee'', r_score = Some 0.7 \<rparr>]
     [graph_result ''FOCUSColumn'' ''[FOCUS] BilledCost: the charge'' 0.92,
      \<lparr> r_source = Some ''graph'', r_label = None, r_path = Some ''FOCUSColumn'',
        r_text = None, r_score = Some 0.99 \<rparr>]
   = [graph_result ''FOCUSColumn'' ''[FOCUS] BilledCost: the charge'' 0.92,
      \<lparr> r_source = Some ''vector'', r_label = Some ''Service'', r_path = None,
        r_text = Some ''Reserved instance fee'', r_score = Some 0.7 \<rparr>]
   \<and> get_score \<lparr> r_source = Some ''vector'', r_label = Some ''Charge'', r_path = None,
        r_text = Some ''Reserved instance fee'', r_score = Some 0.5 \<rparr>
     \<le> get_score \<lparr> r_source = Some ''vector'', r_label = Some ''Service'', r_path = None,
        r_text = Some ''Reserved instance fee'', r_score = Some 0.7 \<rparr>"
proof -
  let ?a = "\<lparr> r_source = Some ''vector'', r_label = Some ''Charge'', r_path = None,
        r_text = Some ''Reserved instance fee'', r_score = Some (0.5::real) \<rparr>"
  let ?b = "\<lparr> r_source = Some ''vector'', r_label = Some ''Service'', r_path = None,
        r_text = Some ''Reserved instance fee'', r_score = Some (0.7::real) \<rparr>"
  let ?c = "graph_result ''FOCUSColumn'' ''[FOCUS] BilledCost: the charge'' 0.92"
  let ?d = "\<lparr> r_source = Some ''graph'', r_label = None, r_path = Some ''FOCUSColumn'',
        r_text = None, r_score = Some (0.99::real) \<rparr>"
  have ci: "context_items [?a, ?b] [?c, ?d] = [?c, ?b]"
    by (simp add: context_items_def sort_by_score_def get_score_def graph_result_def
          assemble_unique.simps text_key_def has_text_def Let_def)
  have k: "text_key ?a = text_key ?b" by (simp add: text_key_def)
  from context_items_dedup_sorted_bounded [of "[?a, ?b]" "[?c, ?d]"]
  have "\<forall>r \<in> set (context_items [?a, ?b] [?c, ?d]).
          \<forall>r' \<in> set ([?a, ?b] @ [?c, ?d]). text_key r' = text_key r \<longrightarrow> get_score r' \<le> get_score r"
    by blast
  then have "\<forall>r' \<in> set ([?a, ?b] @ [?c, ?d]). text_key r' = text_key ?b \<longrightarrow> get_score r' \<le> get_score ?b"
    unfolding ci by simp
  with k have "get_score ?a \<le> get_score ?b" by simp
  with ci show ?thesis by (simp only: simp_thms)
qed

section \<open>The double-counting warning\<close>











section \<open>Isolation of retrieval failures\<close>

lemma run_targets_closed:
  "run_targets env k emb ts issued results =
     (issued @ map (\<lambda>(label, text_field). index_name label) ts,
      results @ concat (map (\<lambda>(label, text_field).
                          map vector_result (fst (query_nodes env (index_name label) text_field k emb)))
                        ts))"
  by (induction ts arbitrary: issued results) (auto simp: Let_def)

lemma concat_skip_empty:
  "F t0 = [] \<Longrightarrow> concat (map F ts) = concat (map F (filter (\<lambda>t. t \<noteq> t0) ts))"
  by (induction ts) auto

lemma vector_search_closed:
  "encode env q = Inr emb \<Longrightarrow>
   vector_search env q k =
     Inr (map (\<lambda>(label, text_field). index_name label) targets,
          take k (search_unique (sort_by_score (concat (map (\<lambda>(label, text_field).
                     map vector_result (fst (query_nodes env (index_name label) text_field k emb)))
                   targets))) {} []))"
  by (simp add: vector_search_def bnd_def run_targets_closed Let_def)

text \<open>
  C5, as claimed: a target whose lookup raises contributes zero results. It does not when
  the lookup raises during the iteration: each row is appended to \<open>results\<close> as it is
  yielded, inside the \<open>try\<close>, and stays there when the exception is swallowed. In the
  sample deployment the \<open>focuscolumn\<close> lookup yields one row and then raises, and that
  row is the result of the search.
\<close>

theorem interrupted_lookup_counterexample:
  "encode sample_vector_env ''spec'' = Inr [2]
   \<and> snd (query_nodes sample_vector_env (index_name ''FOCUSColumn'') ''description'' 10 [2])
       = Some (Exn OtherException ''connection lost'')
   \<and> vector_search sample_vector_env ''spec'' 10 =
       Inr ([''service_embedding'', ''charge_embedding'', ''focuscolumn_embedding'',
             ''allocationmethod_embedding''],
            [\<lparr> r_source = Some ''vector'', r_label = Some ''FOCUSColumn'', r_path = None,
               r_text = Some ''The cost that is billed'', r_score = Some 0.8 \<rparr>])"
proof -
  have a: "encode sample_vector_env ''spec'' = Inr [2]"
    by (simp add: sample_vector_env_def)
  have b: "snd (query_nodes sample_vector_env (index_name ''FOCUSColumn'') ''description'' 10 [2])
       = Some (Exn OtherException ''connection lost'')"
    by code_simp
  have c: "vector_search sample_vector_env ''spec'' 10 =
       Inr ([''service_embedding'', ''charge_embedding'', ''focuscolumn_embedding'',
             ''allocationmethod_embedding''],
            [\<lparr> r_source = Some ''vector'', r_label = Some ''FOCUSColumn'', r_path = None,
               r_text = Some ''The cost that is billed'', r_score = Some 0.8 \<rparr>])"
    by code_simp
  show ?thesis by (rule conjI [OF a conjI [OF b c]])
qed

text \<open>
  C5, amended. \<open>vector_search\<close> issues the lookups of all four targets whatever any of
  them raises, and returns the ranked, deduplicated and truncated merge of the rows they
  yielded: a target whose lookup raises contributes the rows it yielded before the
  exception and no more. When the lookup raises at the call (no row yielded, as for an
  absent index), the result is that merge over the other targets: the failed target
  contributes nothing. In \<open>CloudCostRAG.query\<close>, when the whole vector search raises, the
  exception is caught and reported, the vector results are empty, and graph retrieval,
  context assembly and generation run as usual: with graph results \<open>g\<close> the context is
  assembled from \<open>[]\<close> and \<open>g\<close> (or is the placeholder) and the answer is that of
  \<open>call_llm\<close> on it.
\<close>

theorem retrieval_failure_isolated:
  "(encode env q = Inr emb
    \<longrightarrow> vector_search env q k =
          Inr (map (\<lambda>(label, text_field). index_name label) targets,
               take k (search_unique (sort_by_score (concat (map (\<lambda>(label, text_field).
                     map vector_result (fst (query_nodes env (index_name label) text_field k emb)))
                   targets))) {} [])))
   \<and> (encode env q = Inr emb \<and> (label0, field0) \<in> set targets
      \<and> query_nodes env (index_name label0) field0 k emb = ([], Some e0)
    \<longrightarrow> vector_search env q k =
          Inr (map (\<lambda>(label, text_field). index_name label) targets,
               take k (search_unique (sort_by_score (concat (map (\<lambda>(label, text_field).
                     map vector_result (fst (query_nodes env (index_name label) text_field k emb)))
                   (filter (\<lambda>t. t \<noteq> (label0, field0)) targets)))) {} [])))
   \<and> (vector_search (vector_store self) question top_k = Inl e
      \<and> graph_search (library self) (graph_store self) question
            (extract_entities question) (extract_intent question) = Inr g
    \<longrightarrow> (\<exists>resp. query self question top_k
                   = Inr (resp, [''  Vector search warning: '' @ msg e])
             \<and> vector_results resp = [] \<and> graph_results resp = g
             \<and> context_text resp = (if assemble_context (library self) [] g = [] then NO_DATA
                                     else assemble_context (library self) [] g)
             \<and> answer resp = call_llm (generation self) question (context_text resp)))"
proof (intro conjI impI)
  assume "encode env q = Inr emb"
  then show "vector_search env q k =
          Inr (map (\<lambda>(label, text_field). index_name label) targets,
               take k (search_unique (sort_by_score (concat (map (\<lambda>(label, text_field).
                     map vector_result (fst (query_nodes env (index_name label) text_field k emb)))
                   targets))) {} []))"
    by (rule vector_search_closed)
next
  assume a: "encode env q = Inr emb \<and> (label0, field0) \<in> set targets
      \<and> query_nodes env (index_name label0) field0 k emb = ([], Some e0)"
  let ?F = "\<lambda>(label, text_field).
              map vector_result (fst (query_nodes env (index_name label) text_field k emb))"
  from a have "?F (label0, field0) = []" by simp
  then have "concat (map ?F targets) = concat (map ?F (filter (\<lambda>t. t \<noteq> (label0, field0)) targets))"
    by (rule concat_skip_empty)
  with a vector_search_closed [of env q emb k]
  show "vector_search env q k =
          Inr (map (\<lambda>(label, text_field). index_name label) targets,
               take k (search_unique (sort_by_score (concat (map ?F
                   (filter (\<lambda>t. t \<noteq> (label0, field0)) targets)))) {} []))"
    by simp
next
  assume b: "vector_search (vector_store self) question top_k = Inl e
      \<and> graph_search (library self) (graph_store self) question
            (extract_entities question) (extract_intent question) = Inr g"
  then show "\<exists>resp. query self question top_k
                   = Inr (resp, [''  Vector search warning: '' @ msg e])
             \<and> vector_results resp = [] \<and> graph_results resp = g
             \<and> context_text resp = (if assemble_context (library self) [] g = [] then NO_DATA
                                     else assemble_context (library self) [] g)
             \<and> answer resp = call_llm (generation self) question (context_text resp)"
    by (simp add: query_def bnd_def Let_def)
qed

theorem retrieval_failure_isolated_witness:
  "vector_search sample_vector_env ''cost'' 10 =
     Inr ([''service_embedding'', ''charge_embedding'', ''focuscolumn_embedding'',
           ''allocationmethod_embedding''],
          [\<lparr> r_source = Some ''vector'', r_label = Some ''Charge'', r_path = None,
             r_text = Some ''Reserved instance fee'', r_score = Some 0.5 \<rparr>])
   \<and> vector_search sample_vector_env ''spec'' 10 =
     Inr ([''service_embedding'', ''charge_embedding'', ''focuscolumn_embedding'',
           ''allocationmethod_embedding''],
          map vector_result
            (fst (query_nodes sample_vector_env ''focuscolumn_embedding'' ''description'' 10 [2])))
   \<and> (\<exists>resp. query sample_rag ''unused'' 10
                 = Inr (resp, [''  Vector search warning: model not loaded''])
          \<and> vector_results resp = []
          \<and> map get_score (graph_results resp) = [0.95, 0.87]
          \<and> answer resp = call_llm sample_llm_env ''unused'' (context_text resp))"
proof -
  let ?row = "\<lparr> pur_provider = Some ''aws'', pur_billed = 0, pur_effective = 0,
                pur_count = 2 \<rparr>"
  let ?g = "[graph_result ''CostRecord[Purchase]->Charge''
               (purchase_text sample_lib ''AWS'' ?row) 0.95,
             graph_result ''CostRecord->Charge[category]''
               (''Charge category '' @ [CHR 0x27] @ ''Purchase'' @ [CHR 0x27]
                  @ '' on AWS: EffectiveCost=$0.00, BilledCost=$0.00'') 0.87]"
  have enc: "encode sample_vector_env ''cost'' = Inr [1]"
    by (simp add: sample_vector_env_def)
  have tgt: "(''Service'', ''serviceName'') \<in> set targets"
    by (simp add: targets_def)
  have fails: "query_nodes sample_vector_env (index_name ''Service'') ''serviceName'' 10 [1]
     = ([], Some (Exn OtherException ''no such vector index''))"
    by code_simp
  have vs: "vector_search (vector_store sample_rag) ''unused'' 10
     = Inl (Exn OtherException ''model not loaded'')"
    by (simp add: sample_rag_def sample_vector_env_def vector_search_def bnd_def)
  have gs0: "graph_search sample_lib sample_graph_env ''unused''
      (extract_entities ''unused'') (extract_intent ''unused'') = Inr ?g"
    by code_simp
  have gs: "graph_search (library sample_rag) (graph_store sample_rag) ''unused''
      (extract_entities ''unused'') (extract_intent ''unused'') = Inr ?g"
    using gs0 by (simp add: sample_rag_def)
  note t = retrieval_failure_isolated
     [where env = sample_vector_env and q = "''cost''" and emb = "[1]"
        and ?label0.0 = "''Service''" and ?field0.0 = "''serviceName''" and k = 10
        and ?e0.0 = "Exn OtherException ''no such vector index''"
        and self = sample_rag and question = "''unused''" and top_k = 10
        and e = "Exn OtherException ''model not loaded''" and g = "?g"]
  note a0 = mp [OF conjunct1 [OF conjunct2 [OF t]], OF conjI [OF enc conjI [OF tgt fails]]]
  have rhs: "Inr (map (\<lambda>(label, text_field). index_name label) targets,
               take 10 (search_unique (sort_by_score (concat (map (\<lambda>(label, text_field).
                     map vector_result
                       (fst (query_nodes sample_vector_env (index_name label) text_field 10 [1])))
                   (filter (\<lambda>t. t \<noteq> (''Service'', ''serviceName'')) targets)))) {} []))
     = (Inr ([''service_embedding'', ''charge_embedding'', ''focuscolumn_embedding'',
           ''allocationmethod_embedding''],
          [\<lparr> r_source = Some ''vector'', r_label = Some ''Charge'', r_path = None,
             r_text = Some ''Reserved instance fee'', r_score = Some 0.5 \<rparr>])
        :: exn + string list \<times> result list)"
    by code_simp
  note a = trans [OF a0 rhs]
  have enc2: "encode sample_vector_env ''spec'' = Inr [2]"
    by (simp add: sample_vector_env_def)
  note t2 = retrieval_failure_isolated
     [where env = sample_vector_env and q = "''spec''" and emb = "[2]" and k = 10]
  note c0 = mp [OF conjunct1 [OF t2] enc2]
  have rhs2: "Inr (map (\<lambda>(label, text_field). index_name label) targets,
               take 10 (search_unique (sort_by_score (concat (map (\<lambda>(label, text_field).
                     map vector_result
                       (fst (query_nodes sample_vector_env (index_name label) text_field 10 [2])))
                   targets))) {} []))
     = (Inr ([''service_embedding'', ''charge_embedding'', ''focuscolumn_embedding'',
           ''allocationmethod_embedding''],
          map vector_result
            (fst (query_nodes sample_vector_env ''focuscolumn_embedding'' ''description'' 10 [2])))
        :: exn + string list \<times> result list)"
    by code_simp
  note c = trans [OF c0 rhs2]
  from mp [OF conjunct2 [OF conjunct2 [OF t]], OF conjI [OF vs gs]] obtain resp where
    r: "query sample_rag ''unused'' 10
          = Inr (resp, [''  Vector search warning: '' @ msg (Exn OtherException ''model not loaded'')])
        \<and> vector_results resp = [] \<and> graph_results resp = ?g
        \<and> context_text resp = (if assemble_context (library sample_rag) [] ?g = [] then NO_DATA
                                else assemble_context (library sample_rag) [] ?g)
        \<and> answer resp = call_llm (generation sample_rag) ''unused'' (context_text resp)"
    by (rule exE)
  from r have r1: "query sample_rag ''unused'' 10
          = Inr (resp, [''  Vector search warning: model not loaded''])"
    by simp
  from r have r2: "vector_results resp = []" by (elim conjE)
  from r have "graph_results resp = ?g" by (elim conjE)
  then have r3: "map get_score (graph_results resp) = [0.95, 0.87]"
    by (simp add: get_score_def graph_result_def)
  from r have "answer resp = call_llm (generation sample_rag) ''unused'' (context_text resp)"
    by (elim conjE)
  then have r4: "answer resp = call_llm sample_llm_env ''unused'' (context_text resp)"
    by (simp add: sample_rag_def)
  have b: "\<exists>resp. query sample_rag ''unused'' 10
                 = Inr (resp, [''  Vector search warning: model not loaded''])
          \<and> vector_results resp = []
          \<and> map get_score (graph_results resp) = [0.95, 0.87]
          \<and> answer resp = call_llm sample_llm_env ''unused'' (context_text resp)"
    by (rule exI [of _ resp]) (rule conjI [OF r1 conjI [OF r2 conjI [OF r3 r4]]])
  show ?thesis by (rule conjI [OF a conjI [OF c b]])
qed

end
